theory Spec2Isabelle
  imports Main
begin

section \<open>Characters, C strings and the line buffer\<close>

text \<open>
  The program is C. A C string is the run of bytes up to the first NUL byte; the line
  buffer that \<open>getline\<close> fills is modelled as the list of the bytes \<open>getline\<close> wrote
  (the line and the terminator after it). Bytes behind that terminator are whatever an
  earlier line left there, so a read behind it is a fault of the model.
  Memory allocation is taken to succeed; freeing memory is not modelled.
\<close>

type_synonym buffer = "char list"

definition NUL :: char where
  "NUL = CHR 0x00"

definition c_str :: "buffer \<Rightarrow> string" where
  "c_str b = takeWhile (\<lambda>c. c \<noteq> NUL) b"

text \<open>The character classes of \<open>ctype.h\<close> in the C locale.\<close>

definition isspace :: "char \<Rightarrow> bool" where
  "isspace c = (c = CHR '' '' \<or> (9 \<le> (of_char c :: nat) \<and> (of_char c :: nat) \<le> 13))"

definition isdigit :: "char \<Rightarrow> bool" where
  "isdigit c = (48 \<le> (of_char c :: nat) \<and> (of_char c :: nat) \<le> 57)"

definition isupper :: "char \<Rightarrow> bool" where
  "isupper c = (65 \<le> (of_char c :: nat) \<and> (of_char c :: nat) \<le> 90)"

definition isalpha :: "char \<Rightarrow> bool" where
  "isalpha c = (isupper c \<or> (97 \<le> (of_char c :: nat) \<and> (of_char c :: nat) \<le> 122))"

definition tolower :: "char \<Rightarrow> char" where
  "tolower c = (if isupper c then char_of ((of_char c :: nat) + 32) else c)"

text \<open>\<open>to_lowercase\<close> of chat-io.c: every byte of the string through \<open>tolower\<close>.\<close>

definition to_lowercase :: "string \<Rightarrow> string" where
  "to_lowercase str = map tolower str"

text \<open>
  \<open>getline\<close> on the bytes still unread: \<open>None\<close> at end of input (the C function
  returns -1), otherwise the buffer (the line with its newline, if it has one, and the
  terminator), the number of bytes read, and the bytes that remain.
\<close>

definition getline :: "string \<Rightarrow> (buffer \<times> nat \<times> string) option" where
  "getline inp =
     (if inp = [] then None
      else (let l = takeWhile (\<lambda>c. c \<noteq> CHR 0x0A) inp in
            case dropWhile (\<lambda>c. c \<noteq> CHR 0x0A) inp of
              [] \<Rightarrow> Some (l @ [NUL], length l, [])
            | nl # rest \<Rightarrow> Some (l @ [nl, NUL], Suc (length l), rest)))"

text \<open>
  \<open>strtok\<close> with the delimiter string \<open>" "\<close>, on the C string at the saved position:
  leading spaces are skipped; \<open>None\<close> is the NULL result; otherwise the token (never
  empty) and the C string at the new saved position.
\<close>

definition strtok :: "string \<Rightarrow> (string \<times> string) option" where
  "strtok s =
     (case dropWhile (\<lambda>c. c = CHR '' '') s of
        [] \<Rightarrow> None
      | c # cs \<Rightarrow> Some (c # takeWhile (\<lambda>c. c \<noteq> CHR '' '') cs,
                         drop 1 (dropWhile (\<lambda>c. c \<noteq> CHR '' '') cs)))"

text \<open>
  \<open>trim_whitespace\<close> of chat-io.c, on the buffer: \<open>start\<close> is the index of the first
  byte that is not white space, \<open>trim_end\<close> is the loop that moves \<open>end\<close> back, and the
  last line is the \<open>memmove\<close> of the trimmed string and its terminator to the front;
  the bytes behind the moved terminator stay as they were.
\<close>

fun trim_end :: "buffer \<Rightarrow> nat \<Rightarrow> nat \<Rightarrow> nat" where
  "trim_end str start 0 = 0"
| "trim_end str start (Suc e) =
     (if Suc e > start \<and> isspace (str ! Suc e) then trim_end str start e else Suc e)"

definition trim_whitespace :: "buffer \<Rightarrow> buffer" where
  "trim_whitespace str =
     (let start = length (takeWhile isspace str) in
      if str ! start = NUL then str[0 := NUL]
      else (let e = trim_end str start (start + length (c_str (drop start str)) - 1);
                str1 = str[e + 1 := NUL];
                n = length (c_str (drop start str1)) + 1
            in take n (drop start str1) @ drop n str1))"

text \<open>
  \<open>atoi\<close>: white space, an optional sign, then the run of decimal digits. The C standard
  leaves the result undefined when the value does not fit an \<open>int\<close> (32 bits): \<open>None\<close>.
\<close>

fun digits_val :: "string \<Rightarrow> int \<Rightarrow> int" where
  "digits_val [] acc = acc"
| "digits_val (c # cs) acc = digits_val cs (acc * 10 + (int (of_char c) - 48))"

definition atoi :: "string \<Rightarrow> int option" where
  "atoi s =
     (let s1 = dropWhile isspace s;
          neg = (s1 \<noteq> [] \<and> hd s1 = CHR ''-'');
          s2 = (if s1 \<noteq> [] \<and> (hd s1 = CHR ''-'' \<or> hd s1 = CHR ''+'') then tl s1 else s1);
          v = digits_val (takeWhile isdigit s2) 0
      in if neg then (if v \<le> 2147483648 then Some (- v) else None)
         else (if v \<le> 2147483647 then Some v else None))"

text \<open>The conversion \<open>(size_t)\<close> of an \<open>int\<close>, for a 64-bit \<open>size_t\<close>.\<close>

definition size_t_of_int :: "int \<Rightarrow> nat" where
  "size_t_of_int i = nat (i mod 2 ^ 64)"

section \<open>The chat store (chat.h, chat.c)\<close>

text \<open>
  \<open>struct ChatMsg\<close>; the field \<open>num_topics\<close> is the length of \<open>topics\<close>.
  The linked list behind the global \<open>head\<close> is the list of its messages, first node
  first.
\<close>

record ChatMsg =
  user :: string
  room :: string
  topics :: "string list"
  message :: string

definition create_chat_message :: "string \<Rightarrow> string \<Rightarrow> string \<Rightarrow> string list \<Rightarrow> ChatMsg" where
  "create_chat_message u r msg ts = \<lparr>user = u, room = r, topics = ts, message = msg\<rparr>"

definition add_chat_msg :: "ChatMsg \<Rightarrow> ChatMsg list \<Rightarrow> ChatMsg list" where
  "add_chat_msg msg store = msg # store"

text \<open>The inner loop over \<open>chat_msg->topics\<close> with its \<open>break\<close>.\<close>

fun topic_found :: "string list \<Rightarrow> string \<Rightarrow> bool" where
  "topic_found [] t = False"
| "topic_found (x # xs) t = (if x = t then True else topic_found xs t)"

fun message_matches_topics :: "ChatMsg \<Rightarrow> string list \<Rightarrow> bool" where
  "message_matches_topics chat_msg [] = True"
| "message_matches_topics chat_msg (t # ts) =
     (if \<not> topic_found (topics chat_msg) t then False
      else message_matches_topics chat_msg ts)"

fun is_valid_room :: "string \<Rightarrow> ChatMsg list \<Rightarrow> bool" where
  "is_valid_room r [] = False"
| "is_valid_room r (chat_msg # next) =
     (if r = room chat_msg then True else is_valid_room r next)"

text \<open>The \<open>while\<close> loop of \<open>is_valid_topics\<close> over the nodes, for one topic.\<close>

fun topic_in_store :: "ChatMsg list \<Rightarrow> string \<Rightarrow> bool" where
  "topic_in_store [] t = False"
| "topic_in_store (chat_msg # next) t =
     (if topic_found (topics chat_msg) t then True else topic_in_store next t)"

fun is_valid_topics :: "string list \<Rightarrow> ChatMsg list \<Rightarrow> bool" where
  "is_valid_topics [] store = True"
| "is_valid_topics (t # ts) store =
     (if \<not> topic_in_store store t then False else is_valid_topics ts store)"

text \<open>
  What \<open>display_chat_messages\<close> prints for one matching message, appended to the text
  \<open>e\<close> already in the stream: user, room, the topics with a space after each but the
  last, a newline, the message.
\<close>

fun print_topics :: "string list \<Rightarrow> string \<Rightarrow> string" where
  "print_topics [] e = e"
| "print_topics (t # ts) e =
     print_topics ts ((e @ t) @ (if ts \<noteq> [] then '' '' else []))"

definition print_chat_msg :: "ChatMsg \<Rightarrow> string \<Rightarrow> string" where
  "print_chat_msg chat_msg e =
     print_topics (topics chat_msg) (e @ user chat_msg @ '' '' @ room chat_msg @ '' '')
       @ [CHR 0x0A] @ message chat_msg"

text \<open>
  The scanning loop of \<open>display_chat_messages\<close>: the nodes still to visit,
  \<open>current_count\<close>, \<open>found\<close> and the stream.
\<close>

fun display_loop ::
  "nat \<Rightarrow> string \<Rightarrow> string list \<Rightarrow> ChatMsg list \<Rightarrow> nat \<Rightarrow> bool \<Rightarrow> string \<Rightarrow> bool \<times> string" where
  "display_loop count r ts [] current_count found e = (found, e)"
| "display_loop count r ts (chat_msg # next) current_count found e =
     (if current_count < count then
        (if r = room chat_msg \<and> message_matches_topics chat_msg ts
         then display_loop count r ts next (current_count + 1) True (print_chat_msg chat_msg e)
         else display_loop count r ts next current_count found e)
      else (found, e))"

definition display_chat_messages ::
  "nat \<Rightarrow> string \<Rightarrow> string list \<Rightarrow> ChatMsg list \<Rightarrow> string \<Rightarrow> string" where
  "display_chat_messages count r ts store e =
     (let (found, e1) = display_loop count r ts store 0 False e;
          e2 = (if found = False
                then (if \<not> is_valid_room r store then e1 @ ''BAD_ROOM'' @ [CHR 0x0A] else e1)
                else e1)
      in (if found = False \<and> length ts > 0
          then (if \<not> is_valid_topics ts store then e2 @ ''BAD_TOPIC'' @ [CHR 0x0A] else e2)
          else e2))"

section \<open>The command loop (chat-io.c)\<close>

text \<open>The reasons for which the model stops: the C program reads what it must not.\<close>

datatype fault = Read_behind_terminator | Atoi_out_of_range

text \<open>
  The state of \<open>chat_io\<close>: the global \<open>head\<close> of chat.c and the text written so far to
  the streams \<open>out\<close> and \<open>err\<close>. The argument \<open>prompt\<close> is never used by the function.
\<close>

record chat_state =
  head :: "ChatMsg list"
  out :: string
  err :: string

definition fprintf_err :: "string \<Rightarrow> chat_state \<Rightarrow> chat_state" where
  "fprintf_err s st = st\<lparr>err := err st @ s\<rparr>"

text \<open>
  \<open>concatenate_message\<close>: \<open>None\<close> is the NULL message; the line is appended as a C
  string, with the newline \<open>getline\<close> kept.
\<close>

definition concatenate_message :: "string option \<Rightarrow> buffer \<Rightarrow> string" where
  "concatenate_message msg line =
     (case msg of None \<Rightarrow> c_str line | Some m \<Rightarrow> m @ c_str line)"

text \<open>
  The loop \<open>while (token && token[0] == '#')\<close> of both commands: each topic token is
  copied, put in lower case and appended; \<open>token\<close> is the result of the last \<open>strtok\<close>.
\<close>

function topics_loop :: "(string \<times> string) option \<Rightarrow> string list \<Rightarrow> string list" where
  "topics_loop None ts = ts"
| "topics_loop (Some (tok, sv)) ts =
     (if hd tok = CHR ''#'' then topics_loop (strtok sv) (ts @ [to_lowercase tok]) else ts)"
  by pat_completeness auto
termination
proof (relation "measure (\<lambda>(token, ts). case token of None \<Rightarrow> 0 | Some (tok, sv) \<Rightarrow> Suc (length sv))",
    goal_cases)
  case 1
  show ?case by simp
next
  case (2 tok sv ts)
  have shorter: "length v < length s" if t: "strtok s = Some (w, v)" for s w v
  proof -
    from t obtain c cs where d: "dropWhile (\<lambda>c. c = CHR '' '') s = c # cs"
      by (auto simp: strtok_def split: list.splits)
    with t have v: "v = drop 1 (dropWhile (\<lambda>c. c \<noteq> CHR '' '') cs)"
      by (simp add: strtok_def)
    have "length (dropWhile (\<lambda>c. c \<noteq> CHR '' '') cs) \<le> length cs"
      by (rule length_dropWhile_le)
    then have a: "length v \<le> length cs" using v by simp
    have "length (c # cs) \<le> length s"
      using length_dropWhile_le [of "\<lambda>c. c = CHR '' ''" s] d by simp
    with a show ?thesis by simp
  qed
  show ?case by (auto split: option.splits dest: shorter)
qed

text \<open>
  The loop that collects the message lines of an ADD: it ends at end of input or at a
  line whose first byte is a period; the lines are not trimmed.
\<close>

function read_body :: "string \<Rightarrow> string option \<Rightarrow> string option \<times> string" where
  "read_body inp msg =
     (case getline inp of
        None \<Rightarrow> (msg, inp)
      | Some (line, n, rest) \<Rightarrow>
          if line ! 0 = CHR ''.'' then (msg, rest)
          else read_body rest (Some (concatenate_message msg line)))"
  by pat_completeness auto
termination
proof (relation "measure (\<lambda>(inp, msg). length inp)", goal_cases)
  case 1
  show ?case by simp
next
  case (2 inp msg x2 line y n rest)
  then have g: "getline inp = Some (line, n, rest)" by simp
  then have ne: "inp \<noteq> []"
    by (auto simp: getline_def split: if_splits)
  have "length rest < length inp"
  proof (cases "dropWhile (\<lambda>c. c \<noteq> CHR 0x0A) inp")
    case Nil
    with g ne show ?thesis by (auto simp: getline_def Let_def)
  next
    case (Cons nl r)
    with g ne have "rest = r" by (auto simp: getline_def Let_def)
    with length_dropWhile_le [of "\<lambda>c. c \<noteq> CHR 0x0A" inp] Cons show ?thesis by simp
  qed
  then show ?case by simp
qed

text \<open>
  The ADD branch of \<open>chat_io\<close>, from the \<open>strtok\<close> on \<open>line + 1\<close> to the end of the
  branch: the words of the command line, then the message lines. It returns the input
  that is left and the new state. User and room are copied as they are; only the topics
  go through \<open>to_lowercase\<close>.
\<close>

definition add_cmd :: "buffer \<Rightarrow> string \<Rightarrow> chat_state \<Rightarrow> string \<times> chat_state" where
  "add_cmd line inp st =
     (case strtok (c_str (drop 1 line)) of
        None \<Rightarrow> (inp, fprintf_err (''BAD_USER'' @ [CHR 0x0A]) st)
      | Some (u, sv) \<Rightarrow>
          if hd u \<noteq> CHR ''@'' then (inp, fprintf_err (''BAD_USER'' @ [CHR 0x0A]) st)
          else
            (case strtok sv of
               None \<Rightarrow> (inp, fprintf_err (''BAD_ROOM'' @ [CHR 0x0A]) st)
             | Some (r, sv1) \<Rightarrow>
                 if \<not> isalpha (hd r) then (inp, fprintf_err (''BAD_ROOM'' @ [CHR 0x0A]) st)
                 else
                   (case strtok sv1 of
                      None \<Rightarrow> (inp, fprintf_err (''BAD_TOPIC'' @ [CHR 0x0A]) st)
                    | Some (t, sv2) \<Rightarrow>
                        if hd t \<noteq> CHR ''#'' then (inp, fprintf_err (''BAD_TOPIC'' @ [CHR 0x0A]) st)
                        else
                          (let ts = topics_loop (Some (t, sv2)) [];
                               (msg, rest) = read_body inp None
                           in case msg of
                                None \<Rightarrow> (rest, fprintf_err (''NO_MSG'' @ [CHR 0x0A]) st)
                              | Some m \<Rightarrow>
                                  (rest, st\<lparr>head := add_chat_msg (create_chat_message u r m ts) (head st)\<rparr>)))))"

text \<open>
  The QUERY branch from \<open>// Collect topics\<close> on, with the room and the count already
  read and \<open>token\<close> the word after them: the results of \<open>display_chat_messages\<close> go to the
  stream \<open>err\<close> that \<open>chat_io\<close> hands over.
\<close>

definition query_topics ::
  "nat \<Rightarrow> string \<Rightarrow> (string \<times> string) option \<Rightarrow> chat_state \<Rightarrow> chat_state" where
  "query_topics count r token st =
     (case token of
        None \<Rightarrow> st\<lparr>err := display_chat_messages count r [] (head st) (err st)\<rparr>
      | Some (t, sv) \<Rightarrow>
          if hd t = CHR ''#''
          then st\<lparr>err := display_chat_messages count r (topics_loop token []) (head st) (err st)\<rparr>
          else fprintf_err (''BAD_TOPIC'' @ [CHR 0x0A]) st)"

text \<open>
  The QUERY branch of \<open>chat_io\<close>. The words are read from \<open>line + 2\<close>. When the buffer
  has no third byte (the line is the single byte \<open>?\<close> that ends the input without a
  newline), \<open>line + 2\<close> lies behind the terminator, and the model stops with a fault.
  \<open>count\<close> is a \<open>size_t\<close>, so the test \<open>count < 0\<close> is one between natural numbers.
\<close>

definition query_cmd :: "buffer \<Rightarrow> chat_state \<Rightarrow> fault + chat_state" where
  "query_cmd line st =
     (if length line \<le> 2 then Inl Read_behind_terminator
      else
        (case strtok (c_str (drop 2 line)) of
           None \<Rightarrow> Inr (fprintf_err (''BAD_ROOM'' @ [CHR 0x0A]) st)
         | Some (r, sv) \<Rightarrow>
             if \<not> isalpha (hd r) then Inr (fprintf_err (''BAD_ROOM'' @ [CHR 0x0A]) st)
             else
               (case strtok sv of
                  None \<Rightarrow> Inr (query_topics 1 r None st)
                | Some (t, sv1) \<Rightarrow>
                    if isdigit (hd t) then
                      (case atoi t of
                         None \<Rightarrow> Inl Atoi_out_of_range
                       | Some i \<Rightarrow>
                           (let count = size_t_of_int i in
                            if count < 0 then Inr (fprintf_err (''BAD_COUNT'' @ [CHR 0x0A]) st)
                            else Inr (query_topics count r (strtok sv1) st)))
                    else Inr (query_topics 1 r (Some (t, sv1)) st))))"

text \<open>
  The head of the outer loop: the newline at \<open>line[read - 1]\<close> is replaced by a
  terminator, then the line is trimmed.
\<close>

definition strip_and_trim :: "buffer \<Rightarrow> nat \<Rightarrow> buffer" where
  "strip_and_trim line n =
     trim_whitespace (if line ! (n - 1) = CHR 0x0A then line[n - 1 := NUL] else line)"

text \<open>
  \<open>chat_io\<close>: the loop over the lines of the input. A line of a QUERY is followed by
  its period line, which the next round of the loop reads and skips.
\<close>

function chat_io :: "string \<Rightarrow> chat_state \<Rightarrow> fault + chat_state" where
  "chat_io inp st =
     (case getline inp of
        None \<Rightarrow> Inr st
      | Some (buf, n, rest) \<Rightarrow>
          if strip_and_trim buf n ! 0 = CHR ''+'' then
            chat_io (fst (add_cmd (strip_and_trim buf n) rest st))
                    (snd (add_cmd (strip_and_trim buf n) rest st))
          else if strip_and_trim buf n ! 0 = CHR ''?'' then
            (case query_cmd (strip_and_trim buf n) st of
               Inl f \<Rightarrow> Inl f
             | Inr st' \<Rightarrow> chat_io rest st')
          else if strip_and_trim buf n ! 0 \<noteq> CHR ''.'' then
            chat_io rest (fprintf_err (''BAD_COMMAND'' @ [CHR 0x0A]) st)
          else chat_io rest st)"
  by pat_completeness auto
termination
proof -
  have gl: "length rest < length inp" if g: "getline inp = Some (buf, n, rest)" for inp buf n rest
  proof -
    from g have ne: "inp \<noteq> []"
      by (auto simp: getline_def split: if_splits)
    show ?thesis
    proof (cases "dropWhile (\<lambda>c. c \<noteq> CHR 0x0A) inp")
      case Nil
      with g ne show ?thesis by (auto simp: getline_def Let_def)
    next
      case (Cons nl r)
      with g ne have "rest = r" by (auto simp: getline_def Let_def)
      with length_dropWhile_le [of "\<lambda>c. c \<noteq> CHR 0x0A" inp] Cons show ?thesis by simp
    qed
  qed
  have rb: "length (snd (read_body inp msg)) \<le> length inp" for inp msg
  proof (induction inp msg rule: read_body.induct)
    case (1 inp msg)
    show ?case
    proof (cases "getline inp")
      case None
      then show ?thesis by (simp add: read_body.simps [of inp])
    next
      case (Some x)
      obtain line n rest where x: "x = (line, n, rest)" by (cases x) auto
      have lt: "length rest < length inp" using gl Some x by simp
      show ?thesis
      proof (cases "line ! 0 = CHR ''.''")
        case True
        with Some x lt show ?thesis by (simp add: read_body.simps [of inp])
      next
        case False
        have "length (snd (read_body rest (Some (concatenate_message msg line)))) \<le> length rest"
          by (rule "1.IH" [OF Some [unfolded x] refl refl False])
        with Some x lt False show ?thesis by (simp add: read_body.simps [of inp])
      qed
    qed
  qed
  have ac: "length (fst (add_cmd line inp st)) \<le> length inp" for line inp st
    using rb [of inp None]
    by (auto simp: add_cmd_def Let_def simp del: read_body.simps split: option.splits prod.splits)
  show ?thesis
  proof (relation "measure (\<lambda>(inp, st). length inp)", goal_cases)
    case 1
    show ?case by simp
  next
    case (2 inp st x2 buf y n rest)
    then have "getline inp = Some (buf, n, rest)" by simp
    then have "length rest < length inp" by (rule gl)
    with ac [of "strip_and_trim buf n" rest st] show ?case by (simp add: case_prod_beta)
  next
    case (3 inp st x2 buf y n rest st')
    then have "getline inp = Some (buf, n, rest)" by simp
    then have "length rest < length inp" by (rule gl)
    then show ?case by simp
  next
    case (4 inp st x2 buf y n rest)
    then have "getline inp = Some (buf, n, rest)" by simp
    then have "length rest < length inp" by (rule gl)
    then show ?case by simp
  next
    case (5 inp st x2 buf y n rest)
    then have "getline inp = Some (buf, n, rest)" by simp
    then have "length rest < length inp" by (rule gl)
    then show ?case by simp
  qed
qed



text \<open>
  The recursion equations of the two input loops are unfolded by hand where a proof
  needs them.
\<close>

declare read_body.simps [simp del]
declare chat_io.simps [simp del]

text \<open>The state in which \<open>main\<close> calls \<open>chat_io\<close>: no message, nothing written.\<close>

definition initial_state :: chat_state where
  "initial_state = \<lparr>head = [], out = [], err = []\<rparr>"

section \<open>Notions of the specification\<close>

text \<open>Words separated by single spaces.\<close>

fun sep_by_space :: "string list \<Rightarrow> string" where
  "sep_by_space [] = []"
| "sep_by_space [t] = t"
| "sep_by_space (t # u # ts) = t @ '' '' @ sep_by_space (u # ts)"

text \<open>
  The messages of a store, first node first, whose room equals \<open>r\<close> and whose topic list
  contains every topic of \<open>ts\<close>.
\<close>

definition matching_messages :: "string \<Rightarrow> string list \<Rightarrow> ChatMsg list \<Rightarrow> ChatMsg list" where
  "matching_messages r ts store =
     filter (\<lambda>m. room m = r \<and> set ts \<subseteq> set (topics m)) store"

section \<open>The scan of the store\<close>

lemma topic_found_iff: "topic_found xs t = (t \<in> set xs)"
  by (induction xs) auto

lemma message_matches_topics_iff:
  "message_matches_topics m ts = (set ts \<subseteq> set (topics m))"
  by (induction ts) (auto simp: topic_found_iff)

lemma print_topics_eq: "print_topics ts e = e @ sep_by_space ts"
proof (induction ts arbitrary: e)
  case Nil
  show ?case by simp
next
  case (Cons t ts)
  have "print_topics (t # ts) e = ((e @ t) @ (if ts \<noteq> [] then '' '' else [])) @ sep_by_space ts"
    by (simp only: print_topics.simps Cons.IH)
  also have "\<dots> = e @ sep_by_space (t # ts)"
    by (cases ts) simp_all
  finally show ?case .
qed

lemma print_chat_msg_eq:
  "print_chat_msg m e =
     e @ user m @ '' '' @ room m @ '' '' @ sep_by_space (topics m) @ [CHR 0x0A] @ message m"
  by (simp add: print_chat_msg_def print_topics_eq)

lemma print_chat_msg_append: "print_chat_msg m e = e @ print_chat_msg m []"
  by (simp add: print_chat_msg_eq)

text \<open>
  The loop, started anywhere: \<open>found\<close> becomes true exactly when a message is printed,
  and the messages printed are the first \<open>n - k\<close> matching ones of the nodes left.
\<close>

lemma display_loop_eq:
  "display_loop n r ts store k found e =
     (found \<or> (k < n \<and> matching_messages r ts store \<noteq> []),
      e @ concat (map (\<lambda>m. print_chat_msg m []) (take (n - k) (matching_messages r ts store))))"
proof (induction store arbitrary: k found e)
  case Nil
  then show ?case by (simp add: matching_messages_def)
next
  case (Cons m store)
  show ?case
  proof (cases "k < n")
    case False
    then show ?thesis by (simp add: matching_messages_def)
  next
    case True
    then obtain d where d: "n - k = Suc d" by (cases "n - k") auto
    with True have d': "n - Suc k = d" by simp
    show ?thesis
    proof (cases "r = room m \<and> message_matches_topics m ts")
      case yes: True
      then show ?thesis
        using True Cons.IH [of "Suc k" True "print_chat_msg m e"] d d'
        by (auto simp: matching_messages_def message_matches_topics_iff
              print_chat_msg_append [of m e])
    next
      case no: False
      then show ?thesis
        using True Cons.IH [of k found e]
        by (auto simp: matching_messages_def message_matches_topics_iff)
    qed
  qed
qed

text \<open>
  Claim C4. A message is added in front of the list, so the list runs from the most
  recently added message to the oldest. For a QUERY whose room is the room of some
  stored message and whose topics all occur in some stored message, with count \<open>n\<close>,
  \<open>display_chat_messages\<close> prints exactly the first \<open>n\<close> messages, in the order of the
  list, whose room equals the room asked for and whose topic list contains every topic
  asked for; with no topic asked for, every message of the room matches.
\<close>

theorem query_prints_first_matches_lifo:
  assumes "is_valid_room r store" and "is_valid_topics ts store"
  shows "add_chat_msg msg store = msg # store \<and>
         display_chat_messages n r ts store e =
           e @ concat (map (\<lambda>m. print_chat_msg m []) (take n (matching_messages r ts store)))"
  using assms by (simp add: display_chat_messages_def display_loop_eq add_chat_msg_def)

theorem query_prints_first_matches_lifo_witness:
  "is_valid_room ''r''
     [\<lparr>user = ''@c'', room = ''r'', topics = [''#x''], message = ''three''\<rparr>,
      \<lparr>user = ''@b'', room = ''s'', topics = [''#x'', ''#y''], message = ''two''\<rparr>,
      \<lparr>user = ''@a'', room = ''r'', topics = [''#x'', ''#y''], message = ''one''\<rparr>,
      \<lparr>user = ''@a'', room = ''r'', topics = [''#x''], message = ''zero''\<rparr>] \<and>
   is_valid_topics [''#x'']
     [\<lparr>user = ''@c'', room = ''r'', topics = [''#x''], message = ''three''\<rparr>,
      \<lparr>user = ''@b'', room = ''s'', topics = [''#x'', ''#y''], message = ''two''\<rparr>,
      \<lparr>user = ''@a'', room = ''r'', topics = [''#x'', ''#y''], message = ''one''\<rparr>,
      \<lparr>user = ''@a'', room = ''r'', topics = [''#x''], message = ''zero''\<rparr>] \<and>
   display_chat_messages 2 ''r'' [''#x'']
     [\<lparr>user = ''@c'', room = ''r'', topics = [''#x''], message = ''three''\<rparr>,
      \<lparr>user = ''@b'', room = ''s'', topics = [''#x'', ''#y''], message = ''two''\<rparr>,
      \<lparr>user = ''@a'', room = ''r'', topics = [''#x'', ''#y''], message = ''one''\<rparr>,
      \<lparr>user = ''@a'', room = ''r'', topics = [''#x''], message = ''zero''\<rparr>] []
     = ''@c r #x'' @ [CHR 0x0A] @ ''three'' @ ''@a r #x #y'' @ [CHR 0x0A] @ ''one''"
  (is "?room \<and> ?topics \<and> ?D = ?text")
proof -
  have h1: ?room by simp
  have h2: ?topics by simp
  note c = query_prints_first_matches_lifo [OF h1 h2, where n = 2 and e = "[]", THEN conjunct2]
  have "?D = ?text"
    unfolding c by (simp add: matching_messages_def print_chat_msg_eq)
  with h1 h2 show ?thesis by simp
qed

text \<open>
  Claim C10. What the scan prints for each message it selects is the stored user, a
  space, the stored room, a space, the stored topics separated by single spaces, a
  newline, and the message; so for a message without topics the header line ends with
  a space before its newline.
\<close>

theorem header_line_format:
  "snd (display_loop n r ts store 0 False e) =
     e @ concat (map (\<lambda>m. user m @ '' '' @ room m @ '' '' @ sep_by_space (topics m)
                           @ [CHR 0x0A] @ message m)
                  (take n (matching_messages r ts store))) \<and>
   (topics m = [] \<longrightarrow>
      print_chat_msg m e = e @ user m @ '' '' @ room m @ '' '' @ [CHR 0x0A] @ message m)"
  by (simp add: display_loop_eq print_chat_msg_eq)

theorem header_line_format_witness:
  "topics \<lparr>user = ''@a'', room = ''r'', topics = [], message = ''hi''\<rparr> = [] \<and>
   print_chat_msg \<lparr>user = ''@a'', room = ''r'', topics = [], message = ''hi''\<rparr> []
     = ''@a r '' @ [CHR 0x0A] @ ''hi'' \<and>
   snd (display_loop 1 ''r'' []
          [\<lparr>user = ''@a'', room = ''r'', topics = [], message = ''hi''\<rparr>] 0 False [])
     = ''@a r '' @ [CHR 0x0A] @ ''hi''"
  using header_line_format
    [of 1 "''r''" "[]" "[\<lparr>user = ''@a'', room = ''r'', topics = [], message = ''hi''\<rparr>]"
        "[]" "\<lparr>user = ''@a'', room = ''r'', topics = [], message = ''hi''\<rparr>"]
  by (simp add: matching_messages_def)

text \<open>
  Claim C9. For a line recognised as a QUERY the words are read from the third byte of
  the line on: lines that agree from the third byte on are handled alike, whatever the
  second byte is. So the line \<open>?room 2\<close> asks for the room \<open>oom\<close>: of a message in room
  \<open>oom\<close> and a message in room \<open>room\<close> it prints the first.
\<close>

theorem query_words_start_at_third_byte:
  "(drop 2 l1 = drop 2 l2 \<longrightarrow> query_cmd l1 st = query_cmd l2 st) \<and>
   chat_io (''+ @u oom #t\<newline>hello\<newline>.\<newline>'' @
            ''+ @v room #t\<newline>bye\<newline>.\<newline>'' @
            ''?room 2\<newline>.\<newline>'') initial_state =
     Inr \<lparr>head = [\<lparr>user = ''@v'', room = ''room'', topics = [''#t''], message = ''bye\<newline>''\<rparr>,
                 \<lparr>user = ''@u'', room = ''oom'', topics = [''#t''], message = ''hello\<newline>''\<rparr>],
          out = [], err = ''@u oom #t\<newline>hello\<newline>''\<rparr>"
proof (intro conjI impI)
  assume d: "drop 2 l1 = drop 2 l2"
  have "(length l1 \<le> 2) = (drop 2 l1 = [])" by (simp only: drop_eq_Nil)
  also have "\<dots> = (drop 2 l2 = [])" by (simp only: d)
  also have "\<dots> = (length l2 \<le> 2)" by (simp only: drop_eq_Nil)
  finally have len: "(length l1 \<le> 2) = (length l2 \<le> 2)" .
  show "query_cmd l1 st = query_cmd l2 st"
    by (simp only: query_cmd_def d len)
next
  show "chat_io (''+ @u oom #t\<newline>hello\<newline>.\<newline>'' @
            ''+ @v room #t\<newline>bye\<newline>.\<newline>'' @
            ''?room 2\<newline>.\<newline>'') initial_state =
     Inr \<lparr>head = [\<lparr>user = ''@v'', room = ''room'', topics = [''#t''], message = ''bye\<newline>''\<rparr>,
                 \<lparr>user = ''@u'', room = ''oom'', topics = [''#t''], message = ''hello\<newline>''\<rparr>],
          out = [], err = ''@u oom #t\<newline>hello\<newline>''\<rparr>"
    by code_simp
qed

theorem query_words_start_at_third_byte_witness:
  "drop 2 (''?room 2'' @ [NUL]) = drop 2 (''? oom 2'' @ [NUL]) \<and>
   query_cmd (''?room 2'' @ [NUL]) initial_state = query_cmd (''? oom 2'' @ [NUL]) initial_state"
proof -
  have h: "drop 2 (''?room 2'' @ [NUL]) = drop 2 (''? oom 2'' @ [NUL])" by simp
  note r = query_words_start_at_third_byte
             [of "''?room 2'' @ [NUL]" "''? oom 2'' @ [NUL]" initial_state,
              THEN conjunct1, THEN mp, OF h]
  from h r show ?thesis by (rule conjI)
qed

section \<open>Runs of the command loop\<close>

text \<open>
  Claim C1, evaluated. An ADD stores the user and the room as they were typed; only the
  topics are put in lower case. A QUERY compares its room byte by byte: after an ADD to
  room \<open>r\<close> the query for \<open>R\<close> prints no message and writes \<open>BAD_ROOM\<close>, and so does the
  query for \<open>lobby\<close> after an ADD to \<open>Lobby\<close>.
\<close>

theorem add_keeps_letter_case_of_user_and_room:
  "chat_io ''+ @Bob r #News\<newline>hi\<newline>.\<newline>? R\<newline>.\<newline>'' initial_state =
     Inr \<lparr>head = [\<lparr>user = ''@Bob'', room = ''r'', topics = [''#news''], message = ''hi\<newline>''\<rparr>],
          out = [], err = ''BAD_ROOM\<newline>''\<rparr> \<and>
   chat_io ''+ @Bob Lobby #News\<newline>hi\<newline>.\<newline>? lobby\<newline>.\<newline>'' initial_state =
     Inr \<lparr>head = [\<lparr>user = ''@Bob'', room = ''Lobby'', topics = [''#news''], message = ''hi\<newline>''\<rparr>],
          out = [], err = ''BAD_ROOM\<newline>''\<rparr>"
  by code_simp

text \<open>
  Claim C2, evaluated. An ADD with the topics \<open>#a #B #a\<close> stores the three topics
  \<open>#a\<close>, \<open>#b\<close>, \<open>#a\<close>, and a QUERY prints all three.
\<close>

theorem add_keeps_duplicate_topics:
  "chat_io ''+ @u r #a #B #a\<newline>hi\<newline>.\<newline>? r\<newline>.\<newline>'' initial_state =
     Inr \<lparr>head = [\<lparr>user = ''@u'', room = ''r'', topics = [''#a'', ''#b'', ''#a''],
                   message = ''hi\<newline>''\<rparr>],
          out = [], err = ''@u r #a #b #a\<newline>hi\<newline>''\<rparr>"
  by code_simp

text \<open>
  Claim C3, evaluated. A QUERY for a room and a topic that no stored message has
  writes two lines, \<open>BAD_ROOM\<close> and \<open>BAD_TOPIC\<close>, and each line is the code alone.
\<close>

theorem query_unknown_room_and_topic_writes_two_lines:
  "chat_io ''? nosuch #nope\<newline>.\<newline>'' initial_state =
     Inr \<lparr>head = [], out = [], err = ''BAD_ROOM\<newline>BAD_TOPIC\<newline>''\<rparr>"
  by code_simp

text \<open>
  Claim C5, evaluated. The messages a QUERY finds are written to \<open>err\<close>, nothing is
  written to \<open>out\<close>, and no blank line follows them; a QUERY with a stored room and a
  stored topic that no message of the room has writes nothing at all.
\<close>

theorem query_writes_to_err_and_no_blank_line:
  "chat_io ''+ @u r #t\<newline>hi\<newline>.\<newline>? r\<newline>.\<newline>'' initial_state =
     Inr \<lparr>head = [\<lparr>user = ''@u'', room = ''r'', topics = [''#t''], message = ''hi\<newline>''\<rparr>],
          out = [], err = ''@u r #t\<newline>hi\<newline>''\<rparr> \<and>
   chat_io (''+ @u r #a\<newline>one\<newline>.\<newline>'' @
            ''+ @v s #b\<newline>two\<newline>.\<newline>'' @
            ''? r #b\<newline>.\<newline>'') initial_state =
     Inr \<lparr>head = [\<lparr>user = ''@v'', room = ''s'', topics = [''#b''], message = ''two\<newline>''\<rparr>,
                 \<lparr>user = ''@u'', room = ''r'', topics = [''#a''], message = ''one\<newline>''\<rparr>],
          out = [], err = []\<rparr>"
  by code_simp

text \<open>
  Claim C6, evaluated. The count \<open>0\<close> is accepted: the QUERY writes nothing, and no
  \<open>BAD_COUNT\<close>. The word \<open>2x\<close> is read as the count 2, since only its first byte is
  tested.
\<close>

theorem query_count_zero_is_accepted:
  "chat_io ''+ @u r #t\<newline>hi\<newline>.\<newline>? r 0\<newline>.\<newline>'' initial_state =
     Inr \<lparr>head = [\<lparr>user = ''@u'', room = ''r'', topics = [''#t''], message = ''hi\<newline>''\<rparr>],
          out = [], err = []\<rparr> \<and>
   chat_io ''+ @u r #t\<newline>hi\<newline>.\<newline>? r 2x #t\<newline>.\<newline>'' initial_state =
     Inr \<lparr>head = [\<lparr>user = ''@u'', room = ''r'', topics = [''#t''], message = ''hi\<newline>''\<rparr>],
          out = [], err = ''@u r #t\<newline>hi\<newline>''\<rparr>"
  by code_simp

text \<open>
  Claim C7, evaluated. An ADD line with a user and a room and no topic is rejected with
  \<open>BAD_TOPIC\<close>; nothing is stored, and its message line is then read as a command.
\<close>

theorem add_without_topics_is_rejected:
  "chat_io ''+ @u r\<newline>hello\<newline>.\<newline>'' initial_state =
     Inr \<lparr>head = [], out = [], err = ''BAD_TOPIC\<newline>BAD_COMMAND\<newline>''\<rparr>"
  by code_simp

text \<open>
  Claim C8, evaluated. The message of an ADD ends at the first line that starts with a
  period: the line \<open>.x\<close> ends it, and the line after it is read as a command. When the
  input ends after a message line and before any period line, the message is stored and
  \<open>NO_MSG\<close> is not written.
\<close>

theorem body_ends_at_first_line_starting_with_period:
  "chat_io ''+ @u r #t\<newline>hello\<newline>.x\<newline>world\<newline>.\<newline>'' initial_state =
     Inr \<lparr>head = [\<lparr>user = ''@u'', room = ''r'', topics = [''#t''], message = ''hello\<newline>''\<rparr>],
          out = [], err = ''BAD_COMMAND\<newline>''\<rparr> \<and>
   chat_io ''+ @u r #t\<newline>hello\<newline>'' initial_state =
     Inr \<lparr>head = [\<lparr>user = ''@u'', room = ''r'', topics = [''#t''], message = ''hello\<newline>''\<rparr>],
          out = [], err = []\<rparr>"
  by code_simp

end
